theory Spec2Isabelle
  imports Complex_Main
begin

section \<open>Python values and exceptions\<close>

text \<open>
  The five scripts under \<^verbatim>\<open>src/SOLID\<close> are embedded function by function. A Python
  \<^verbatim>\<open>str\<close> is a list of Unicode code points (so \<^verbatim>\<open>len\<close> is \<open>length\<close> and a lone
  surrogate is representable); \<open>py\<close> turns an ASCII literal into one. Exceptions are
  values of type \<open>error\<close>, and a call that can raise returns \<open>error + 'a\<close>.
  What \<^verbatim>\<open>print\<close> writes is not modelled, and the output stream is taken to accept every
  string, so that \<^verbatim>\<open>print\<close> itself never raises; an exception raised while the arguments
  of a \<^verbatim>\<open>print\<close> are evaluated is modelled. A parameter that the source annotates or uses
  as a string is a string.
\<close>

type_synonym pystr = "nat list"

definition py :: "string \<Rightarrow> pystr" where
  "py s = map of_char s"

datatype error =
    TypeError
  | ValueError
  | UnicodeEncodeError
  | NotImplementedError
  | AttributeError






section \<open>srp\_example.py: user registration\<close>












section \<open>ocp\_example.py: shapes, discounts, payment processors\<close>

text \<open>
  An abstract base class is the record of its methods, and a concrete class is a function
  from its constructor arguments to such a record: a caller that holds a \<open>Shape\<close> can
  only call the method, whatever class the object has. Methods that only feed the
  narration (\<^verbatim>\<open>get_shape_type\<close>, \<^verbatim>\<open>get_discount_type\<close>, \<^verbatim>\<open>get_processor_name\<close>) are
  left out. Numbers are real numbers: arithmetic is exact, the rounding of Python's
  floats is not modelled.
\<close>

record Shape =
  calculate_area :: real

definition GoodRectangle :: "real \<Rightarrow> real \<Rightarrow> Shape" where
  "GoodRectangle width height = \<lparr>calculate_area = width * height\<rparr>"

definition GoodCircle :: "real \<Rightarrow> Shape" where
  "GoodCircle radius = \<lparr>calculate_area = pi * radius ^ 2\<rparr>"

definition Triangle :: "real \<Rightarrow> real \<Rightarrow> Shape" where
  "Triangle base height = \<lparr>calculate_area = (base * height) / 2\<rparr>"

definition Pentagon :: "real \<Rightarrow> real \<Rightarrow> Shape" where
  "Pentagon side apothem =
     \<lparr>calculate_area = (let perimeter = 5 * side in (perimeter * apothem) / 2)\<rparr>"

definition GoodAreaCalculator_calculate_area :: "Shape \<Rightarrow> real" where
  "GoodAreaCalculator_calculate_area shape = calculate_area shape"

text \<open>\<^verbatim>\<open>sum(...)\<close> adds from the left, starting at 0.\<close>

definition GoodAreaCalculator_calculate_total_area :: "Shape list \<Rightarrow> real" where
  "GoodAreaCalculator_calculate_total_area shapes =
     foldl (\<lambda>total shape. total + calculate_area shape) 0 shapes"








text \<open>
  The payment processors take any value as \<^verbatim>\<open>amount\<close> and any dict as
  \<^verbatim>\<open>payment_details\<close>. The values covered are \<^verbatim>\<open>None\<close>, booleans, integers, finite
  floats, strings and lists; a dict is an association list, read with \<^verbatim>\<open>get\<close>.
\<close>

datatype pyval =
    PNone
  | PBool bool
  | PInt int
  | PFloat real
  | PStr pystr
  | PList "pyval list"



type_synonym pydict = "(pyval \<times> pyval) list"

definition dict_get :: "pydict \<Rightarrow> pyval \<Rightarrow> pyval \<Rightarrow> pyval" where
  "dict_get d k dflt = (case map_of d k of None \<Rightarrow> dflt | Some v \<Rightarrow> v)"















section \<open>lsp\_example.py and isp\_example.py: classes, abstract methods, stubs\<close>

text \<open>
  A class statement is a value: its name, its base and the methods its body defines, each
  with the \<^verbatim>\<open>@abstractmethod\<close> mark and what the body does. The classes modelled have
  one base each, \<^verbatim>\<open>object\<close> where none is written. A body is \<^verbatim>\<open>pass\<close>, a \<^verbatim>\<open>print\<close>, or
  a \<^verbatim>\<open>raise\<close>, and defines each name once; \<^verbatim>\<open>__init__\<close> is not a method of the model,
  an object is created with the attributes \<^verbatim>\<open>__init__\<close> stores.
\<close>

datatype stmt = Pass | Print | Raise error

datatype pymethod = Method (is_abstract: bool) (body: stmt)

datatype pyclass =
    ClassObject
  | ClassABC
  | PyClass string pyclass "(string \<times> pymethod) list"

text \<open>\<^verbatim>\<open>abc.ABC\<close> has the metaclass \<^verbatim>\<open>ABCMeta\<close>, and so has every class derived from it.\<close>

fun is_ABCMeta :: "pyclass \<Rightarrow> bool" where
  "is_ABCMeta ClassObject = False"
| "is_ABCMeta ClassABC = True"
| "is_ABCMeta (PyClass name base ms) = is_ABCMeta base"

text \<open>Attribute lookup on a class: its own body first, then its base.\<close>

fun getattr_class :: "pyclass \<Rightarrow> string \<Rightarrow> pymethod option" where
  "getattr_class ClassObject attr = None"
| "getattr_class ClassABC attr = None"
| "getattr_class (PyClass name base ms) attr =
     (case map_of ms attr of Some m \<Rightarrow> Some m | None \<Rightarrow> getattr_class base attr)"

definition attr_is_abstract :: "pyclass \<Rightarrow> string \<Rightarrow> bool" where
  "attr_is_abstract c attr =
     (case getattr_class c attr of Some m \<Rightarrow> is_abstract m | None \<Rightarrow> False)"

text \<open>
  \<^verbatim>\<open>ABCMeta.__new__\<close> computes \<^verbatim>\<open>__abstractmethods__\<close>: the names the body marks abstract,
  and the abstract names of the base that still resolve to an abstract method. A class
  without \<^verbatim>\<open>ABCMeta\<close> has none, whatever its body marks.
\<close>

fun abstractmethods :: "pyclass \<Rightarrow> string list" where
  "abstractmethods ClassObject = []"
| "abstractmethods ClassABC = []"
| "abstractmethods (PyClass name base ms) =
     (if is_ABCMeta base
      then filter (attr_is_abstract (PyClass name base ms)) (map fst ms)
           @ filter (attr_is_abstract (PyClass name base ms)) (abstractmethods base)
      else [])"

record pyobj =
  class_of :: pyclass
  attrs :: "(string \<times> pyval) list"

text \<open>
  Calling a class: \<^verbatim>\<open>object.__new__\<close> raises \<^verbatim>\<open>TypeError\<close> when
  \<^verbatim>\<open>__abstractmethods__\<close> is not empty.
\<close>

definition instantiate :: "pyclass \<Rightarrow> (string \<times> pyval) list \<Rightarrow> error + pyobj" where
  "instantiate c as =
     (if abstractmethods c \<noteq> [] then Inl TypeError
      else Inr \<lparr>class_of = c, attrs = as\<rparr>)"

text \<open>
  Calling a method on an object: the method is found on the object's class and its body
  runs. \<^verbatim>\<open>pass\<close> and \<^verbatim>\<open>print\<close> return \<^verbatim>\<open>None\<close>.
\<close>

definition call_method :: "pyobj \<Rightarrow> string \<Rightarrow> error + pyval" where
  "call_method obj name =
     (case getattr_class (class_of obj) name of
        None \<Rightarrow> Inl AttributeError
      | Some m \<Rightarrow> (case body m of Pass \<Rightarrow> Inr PNone | Print \<Rightarrow> Inr PNone | Raise e \<Rightarrow> Inl e))"

definition BadBird :: pyclass where
  "BadBird = PyClass ''BadBird'' ClassABC
     [(''fly'', Method True Pass),
      (''eat'', Method False Print)]"

definition BadEagle :: pyclass where
  "BadEagle = PyClass ''BadEagle'' BadBird
     [(''fly'', Method False Print)]"

definition BadPenguin :: pyclass where
  "BadPenguin = PyClass ''BadPenguin'' BadBird
     [(''fly'', Method False (Raise NotImplementedError))]"

definition BadVehicle :: pyclass where
  "BadVehicle = PyClass ''BadVehicle'' ClassObject
     [(''start_engine'', Method False Print),
      (''accelerate'', Method False Print)]"

definition BadBicycle :: pyclass where
  "BadBicycle = PyClass ''BadBicycle'' BadVehicle
     [(''start_engine'', Method False (Raise NotImplementedError))]"

definition BadMultiFunctionDevice :: pyclass where
  "BadMultiFunctionDevice = PyClass ''BadMultiFunctionDevice'' ClassABC
     [(''print_document'', Method True Pass),
      (''print_color'', Method True Pass),
      (''scan_document'', Method True Pass),
      (''scan_to_email'', Method True Pass),
      (''send_fax'', Method True Pass),
      (''receive_fax'', Method True Pass),
      (''copy_document'', Method True Pass),
      (''copy_color'', Method True Pass)]"

definition BadSimplePrinter :: pyclass where
  "BadSimplePrinter = PyClass ''BadSimplePrinter'' BadMultiFunctionDevice
     [(''print_document'', Method False Print),
      (''print_color'', Method False (Raise NotImplementedError)),
      (''scan_document'', Method False (Raise NotImplementedError)),
      (''scan_to_email'', Method False (Raise NotImplementedError)),
      (''send_fax'', Method False (Raise NotImplementedError)),
      (''receive_fax'', Method False (Raise NotImplementedError)),
      (''copy_document'', Method False (Raise NotImplementedError)),
      (''copy_color'', Method False (Raise NotImplementedError))]"

text \<open>
  \<^verbatim>\<open>Rectangle\<close> and its subclass \<^verbatim>\<open>Square\<close>: an object carries its class, and a call of
  \<^verbatim>\<open>set_width\<close> or \<^verbatim>\<open>set_height\<close> runs the method of that class. The fields \<^verbatim>\<open>_width\<close>
  and \<^verbatim>\<open>_height\<close> are \<open>priv_width\<close> and \<open>priv_height\<close>.
\<close>

datatype rectangle_class = Rectangle | Square

record rectangle =
  cls :: rectangle_class
  color :: pystr
  priv_width :: real
  priv_height :: real

definition Rectangle_init :: "pystr \<Rightarrow> real \<Rightarrow> real \<Rightarrow> rectangle" where
  "Rectangle_init c width height =
     \<lparr>cls = Rectangle, color = c, priv_width = width, priv_height = height\<rparr>"

definition Square_init :: "pystr \<Rightarrow> real \<Rightarrow> rectangle" where
  "Square_init c side = (Rectangle_init c side side)\<lparr>cls := Square\<rparr>"

definition Rectangle_calculate_area :: "rectangle \<Rightarrow> real" where
  "Rectangle_calculate_area self = priv_width self * priv_height self"

definition Rectangle_calculate_perimeter :: "rectangle \<Rightarrow> real" where
  "Rectangle_calculate_perimeter self = 2 * (priv_width self + priv_height self)"

definition Rectangle_set_width :: "rectangle \<Rightarrow> real \<Rightarrow> rectangle" where
  "Rectangle_set_width self width = self\<lparr>priv_width := width\<rparr>"

definition Rectangle_set_height :: "rectangle \<Rightarrow> real \<Rightarrow> rectangle" where
  "Rectangle_set_height self height = self\<lparr>priv_height := height\<rparr>"

definition Square_set_width :: "rectangle \<Rightarrow> real \<Rightarrow> rectangle" where
  "Square_set_width self width = self\<lparr>priv_width := width, priv_height := width\<rparr>"

definition Square_set_height :: "rectangle \<Rightarrow> real \<Rightarrow> rectangle" where
  "Square_set_height self height = self\<lparr>priv_height := height, priv_width := height\<rparr>"

definition set_width :: "rectangle \<Rightarrow> real \<Rightarrow> rectangle" where
  "set_width self width =
     (case cls self of Rectangle \<Rightarrow> Rectangle_set_width self width
                     | Square \<Rightarrow> Square_set_width self width)"

definition set_height :: "rectangle \<Rightarrow> real \<Rightarrow> rectangle" where
  "set_height self height =
     (case cls self of Rectangle \<Rightarrow> Rectangle_set_height self height
                     | Square \<Rightarrow> Square_set_height self height)"

text \<open>A sequence of setter calls on one object, in order.\<close>

datatype setter_call = Call_set_width (arg: real) | Call_set_height (arg: real)

fun call_setter :: "rectangle \<Rightarrow> setter_call \<Rightarrow> rectangle" where
  "call_setter self (Call_set_width w) = set_width self w"
| "call_setter self (Call_set_height h) = set_height self h"

definition call_setters :: "rectangle \<Rightarrow> setter_call list \<Rightarrow> rectangle" where
  "call_setters self calls = foldl call_setter self calls"

text \<open>
  The argument of the latest setter call, or the constructor's side when there was none.
\<close>

definition latest_side :: "real \<Rightarrow> setter_call list \<Rightarrow> real" where
  "latest_side side calls = (if calls = [] then side else arg (last calls))"


section \<open>dip\_example.py: message senders and repositories\<close>








text \<open>
  The repositories keep their data in a dict created by \<^verbatim>\<open>__init__\<close> and changed in
  place, so objects live in a heap: an address holds a repository object or a dict, and a
  repository object holds the address of its dict. \<open>next_addr\<close> is the first address
  never used.

  A dict finds a key by hash and equality: a list is unhashable (\<^verbatim>\<open>TypeError\<close>), and
  \<^verbatim>\<open>True\<close>, \<^verbatim>\<open>1\<close> and \<^verbatim>\<open>1.0\<close> are one key. \<open>key_of\<close> gives the key a value stands for.
\<close>

type_synonym addr = nat

datatype hkey = KNone | KNum real | KStr pystr

fun key_of :: "pyval \<Rightarrow> error + hkey" where
  "key_of PNone = Inr KNone"
| "key_of (PBool b) = Inr (KNum (if b then 1 else 0))"
| "key_of (PInt i) = Inr (KNum (of_int i))"
| "key_of (PFloat x) = Inr (KNum x)"
| "key_of (PStr s) = Inr (KStr s)"
| "key_of (PList xs) = Inl TypeError"

record DatabaseRepository =
  connection_string :: pystr
  data_store :: addr

record FileRepository =
  base_path :: pystr
  files :: addr

record CloudRepository =
  cloud_provider :: pystr
  cloud_storage :: addr

datatype DataRepository =
    Database DatabaseRepository
  | File FileRepository
  | Cloud CloudRepository

record heap =
  objects :: "addr \<rightharpoonup> DataRepository"
  dicts :: "addr \<Rightarrow> (hkey \<rightharpoonup> pydict)"
  next_addr :: addr

definition empty_heap :: heap where
  "empty_heap = \<lparr>objects = Map.empty, dicts = (\<lambda>a. Map.empty), next_addr = 0\<rparr>"

text \<open>
  Creating an object takes the next address for the object and the one after for the
  empty dict its \<^verbatim>\<open>__init__\<close> creates. The result is the address of the new object and
  the heap afterwards.
\<close>

definition new_object :: "heap \<Rightarrow> (addr \<Rightarrow> DataRepository) \<Rightarrow> addr \<times> heap" where
  "new_object h mk =
     (let self = next_addr h; d = Suc self
      in (self, h\<lparr>objects := (objects h)(self \<mapsto> mk d),
                   dicts := (dicts h)(d := Map.empty),
                   next_addr := Suc d\<rparr>))"

definition DatabaseRepository_init :: "heap \<Rightarrow> pystr \<Rightarrow> addr \<times> heap" where
  "DatabaseRepository_init h cs =
     new_object h (\<lambda>d. Database \<lparr>connection_string = cs, data_store = d\<rparr>)"

definition FileRepository_init :: "heap \<Rightarrow> pystr \<Rightarrow> addr \<times> heap" where
  "FileRepository_init h bp =
     new_object h (\<lambda>d. File \<lparr>base_path = bp, files = d\<rparr>)"

definition CloudRepository_init :: "heap \<Rightarrow> pystr \<Rightarrow> addr \<times> heap" where
  "CloudRepository_init h cp =
     new_object h (\<lambda>d. Cloud \<lparr>cloud_provider = cp, cloud_storage = d\<rparr>)"

definition dict_setitem :: "heap \<Rightarrow> addr \<Rightarrow> hkey \<Rightarrow> pydict \<Rightarrow> heap" where
  "dict_setitem h a k v = h\<lparr>dicts := (dicts h)(a := (dicts h a)(k \<mapsto> v))\<rparr>"

definition dict_delitem :: "heap \<Rightarrow> addr \<Rightarrow> hkey \<Rightarrow> heap" where
  "dict_delitem h a k = h\<lparr>dicts := (dicts h)(a := (dicts h a)(k := None))\<rparr>"

text \<open>
  \<^verbatim>\<open>save\<close>, \<^verbatim>\<open>load\<close> and \<^verbatim>\<open>delete\<close> of \<^verbatim>\<open>DatabaseRepository\<close>. A method that changes
  the heap returns its result and the heap afterwards; an exception leaves the heap as it
  was when raised.
\<close>

definition DatabaseRepository_save ::
  "heap \<Rightarrow> DatabaseRepository \<Rightarrow> pydict \<Rightarrow> (error + bool) \<times> heap" where
  "DatabaseRepository_save h self data =
     (let data_id = dict_get data (PStr (py ''id'')) (PStr (py ''unknown''))
      in case key_of data_id of
           Inl e \<Rightarrow> (Inl e, h)
         | Inr k \<Rightarrow> (Inr True, dict_setitem h (data_store self) k data))"

definition DatabaseRepository_load ::
  "heap \<Rightarrow> DatabaseRepository \<Rightarrow> pyval \<Rightarrow> error + pydict" where
  "DatabaseRepository_load h self ident =
     (case key_of ident of
        Inl e \<Rightarrow> Inl e
      | Inr k \<Rightarrow>
          Inr (case dicts h (data_store self) k of
                 Some data \<Rightarrow> data
               | None \<Rightarrow> [(PStr (py ''id''), ident),
                          (PStr (py ''data''), PStr (py ''Data from database''))]))"

definition DatabaseRepository_delete ::
  "heap \<Rightarrow> DatabaseRepository \<Rightarrow> pyval \<Rightarrow> (error + bool) \<times> heap" where
  "DatabaseRepository_delete h self ident =
     (case key_of ident of
        Inl e \<Rightarrow> (Inl e, h)
      | Inr k \<Rightarrow>
          (Inr True,
           if k \<in> dom (dicts h (data_store self)) then dict_delitem h (data_store self) k
           else h))"

text \<open>
  \<^verbatim>\<open>FileRepository\<close> keys its dict by the file name
  \<^verbatim>\<open>f"{self.base_path}/{data_id}.json"\<close>. Formatting a string gives the string; how the
  other values print is the parameter \<open>fmt\<close>.
\<close>

definition py_str :: "(pyval \<Rightarrow> pystr) \<Rightarrow> pyval \<Rightarrow> pystr" where
  "py_str fmt v = (case v of PStr s \<Rightarrow> s | _ \<Rightarrow> fmt v)"

definition file_name :: "(pyval \<Rightarrow> pystr) \<Rightarrow> FileRepository \<Rightarrow> pyval \<Rightarrow> pystr" where
  "file_name fmt self ident = base_path self @ py ''/'' @ py_str fmt ident @ py ''.json''"

definition FileRepository_save ::
  "(pyval \<Rightarrow> pystr) \<Rightarrow> heap \<Rightarrow> FileRepository \<Rightarrow> pydict \<Rightarrow> (error + bool) \<times> heap" where
  "FileRepository_save fmt h self data =
     (let data_id = dict_get data (PStr (py ''id'')) (PStr (py ''unknown''));
          filename = file_name fmt self data_id
      in (Inr True, dict_setitem h (files self) (KStr filename) data))"

definition FileRepository_load ::
  "(pyval \<Rightarrow> pystr) \<Rightarrow> heap \<Rightarrow> FileRepository \<Rightarrow> pyval \<Rightarrow> error + pydict" where
  "FileRepository_load fmt h self ident =
     (let filename = file_name fmt self ident
      in Inr (case dicts h (files self) (KStr filename) of
                Some data \<Rightarrow> data
              | None \<Rightarrow> [(PStr (py ''id''), ident),
                         (PStr (py ''data''), PStr (py ''Data from file''))]))"

definition FileRepository_delete ::
  "(pyval \<Rightarrow> pystr) \<Rightarrow> heap \<Rightarrow> FileRepository \<Rightarrow> pyval \<Rightarrow> (error + bool) \<times> heap" where
  "FileRepository_delete fmt h self ident =
     (let filename = file_name fmt self ident
      in (Inr True,
          if KStr filename \<in> dom (dicts h (files self))
          then dict_delitem h (files self) (KStr filename)
          else h))"

definition CloudRepository_save ::
  "heap \<Rightarrow> CloudRepository \<Rightarrow> pydict \<Rightarrow> (error + bool) \<times> heap" where
  "CloudRepository_save h self data =
     (let data_id = dict_get data (PStr (py ''id'')) (PStr (py ''unknown''))
      in case key_of data_id of
           Inl e \<Rightarrow> (Inl e, h)
         | Inr k \<Rightarrow> (Inr True, dict_setitem h (cloud_storage self) k data))"

definition CloudRepository_load ::
  "heap \<Rightarrow> CloudRepository \<Rightarrow> pyval \<Rightarrow> error + pydict" where
  "CloudRepository_load h self ident =
     (case key_of ident of
        Inl e \<Rightarrow> Inl e
      | Inr k \<Rightarrow>
          Inr (case dicts h (cloud_storage self) k of
                 Some data \<Rightarrow> data
               | None \<Rightarrow> [(PStr (py ''id''), ident),
                          (PStr (py ''data''), PStr (py ''Data from cloud''))]))"

definition CloudRepository_delete ::
  "heap \<Rightarrow> CloudRepository \<Rightarrow> pyval \<Rightarrow> (error + bool) \<times> heap" where
  "CloudRepository_delete h self ident =
     (case key_of ident of
        Inl e \<Rightarrow> (Inl e, h)
      | Inr k \<Rightarrow>
          (Inr True,
           if k \<in> dom (dicts h (cloud_storage self)) then dict_delitem h (cloud_storage self) k
           else h))"

text \<open>A call through the \<^verbatim>\<open>DataRepository\<close> interface runs the method of the object's class.\<close>

fun save :: "(pyval \<Rightarrow> pystr) \<Rightarrow> heap \<Rightarrow> DataRepository \<Rightarrow> pydict \<Rightarrow> (error + bool) \<times> heap" where
  "save fmt h (Database self) data = DatabaseRepository_save h self data"
| "save fmt h (File self) data = FileRepository_save fmt h self data"
| "save fmt h (Cloud self) data = CloudRepository_save h self data"

fun load :: "(pyval \<Rightarrow> pystr) \<Rightarrow> heap \<Rightarrow> DataRepository \<Rightarrow> pyval \<Rightarrow> error + pydict" where
  "load fmt h (Database self) ident = DatabaseRepository_load h self ident"
| "load fmt h (File self) ident = FileRepository_load fmt h self ident"
| "load fmt h (Cloud self) ident = CloudRepository_load h self ident"

fun delete :: "(pyval \<Rightarrow> pystr) \<Rightarrow> heap \<Rightarrow> DataRepository \<Rightarrow> pyval \<Rightarrow> (error + bool) \<times> heap" where
  "delete fmt h (Database self) ident = DatabaseRepository_delete h self ident"
| "delete fmt h (File self) ident = FileRepository_delete fmt h self ident"
| "delete fmt h (Cloud self) ident = CloudRepository_delete h self ident"

fun store_of :: "DataRepository \<Rightarrow> addr" where
  "store_of (Database self) = data_store self"
| "store_of (File self) = files self"
| "store_of (Cloud self) = cloud_storage self"


text \<open>
  The heaps a program can reach: it starts with no object, creates repositories, and
  calls \<^verbatim>\<open>save\<close> and \<^verbatim>\<open>delete\<close> on the objects it created (\<^verbatim>\<open>load\<close> changes nothing).
\<close>

inductive reachable :: "(pyval \<Rightarrow> pystr) \<Rightarrow> heap \<Rightarrow> bool" for fmt where
  reachable_empty: "reachable fmt empty_heap"
| reachable_Database:
    "reachable fmt h \<Longrightarrow> reachable fmt (snd (DatabaseRepository_init h cs))"
| reachable_File:
    "reachable fmt h \<Longrightarrow> reachable fmt (snd (FileRepository_init h bp))"
| reachable_Cloud:
    "reachable fmt h \<Longrightarrow> reachable fmt (snd (CloudRepository_init h cp))"
| reachable_save:
    "reachable fmt h \<Longrightarrow> objects h a = Some self \<Longrightarrow>
       reachable fmt (snd (save fmt h self data))"
| reachable_delete:
    "reachable fmt h \<Longrightarrow> objects h a = Some self \<Longrightarrow>
       reachable fmt (snd (delete fmt h self ident))"

definition own_dicts :: "heap \<Rightarrow> bool" where
  "own_dicts h =
     ((\<forall>a A. objects h a = Some A \<longrightarrow> store_of A < next_addr h) \<and>
      (\<forall>a b A B. objects h a = Some A \<and> objects h b = Some B \<and> a \<noteq> b
          \<longrightarrow> store_of A \<noteq> store_of B))"

text \<open>
  The driver's three repositories, created in order, and the record it saves in each:
  the database object is at address 0 with its dict at 1, the file object at 2 with its
  dict at 3, the cloud object at 4 with its dict at 5.
\<close>

definition driver_heap :: heap where
  "driver_heap =
     snd (CloudRepository_init
       (snd (FileRepository_init
         (snd (DatabaseRepository_init empty_heap (py ''jdbc:mysql://localhost:3306/mydb'')))
         (py ''/data/files'')))
       (py ''AWS S3''))"

definition test_data :: pydict where
  "test_data =
     [(PStr (py ''id''), PStr (py ''product_001'')),
      (PStr (py ''name''), PStr (py ''Laptop'')),
      (PStr (py ''price''), PFloat 999.99)]"

section \<open>Verified properties\<close>

subsection \<open>srp\_example.py\<close>





subsection \<open>ocp\_example.py\<close>

text \<open>
  C4: \<^verbatim>\<open>GoodAreaCalculator.calculate_area(s)\<close> is \<^verbatim>\<open>s.calculate_area()\<close> for every object
  \<open>s\<close> of the \<open>Shape\<close> interface, of whatever class. So the result for the variants
  that existed first, \<^verbatim>\<open>GoodRectangle\<close> and \<^verbatim>\<open>GoodCircle\<close>, is fixed by their own fields,
  and a further shape in the list (a \<^verbatim>\<open>Triangle\<close>, a \<^verbatim>\<open>Pentagon\<close>, or a class written
  later) adds its own area to the total and changes nothing else.
\<close>

theorem GoodAreaCalculator_pure_dispatch:
  "GoodAreaCalculator_calculate_area s = calculate_area s
   \<and> GoodAreaCalculator_calculate_area (GoodRectangle w h) = w * h
   \<and> GoodAreaCalculator_calculate_area (GoodCircle r) = pi * r ^ 2
   \<and> GoodAreaCalculator_calculate_total_area (shapes @ [s]) =
       GoodAreaCalculator_calculate_total_area shapes + calculate_area s"
  by (simp add: GoodAreaCalculator_calculate_area_def GoodRectangle_def GoodCircle_def
      GoodAreaCalculator_calculate_total_area_def)
















subsection \<open>lsp\_example.py and isp\_example.py\<close>

lemma cls_call_setter: "cls (call_setter self c) = cls self"
  by (cases c; cases "cls self")
     (simp_all add: set_width_def set_height_def Rectangle_set_width_def
        Rectangle_set_height_def Square_set_width_def Square_set_height_def)

lemma cls_call_setters: "cls (call_setters self calls) = cls self"
  unfolding call_setters_def
  by (induction calls arbitrary: self) (simp_all add: cls_call_setter)

lemma Square_call_setter:
  "cls self = Square \<Longrightarrow>
     priv_width (call_setter self c) = arg c \<and> priv_height (call_setter self c) = arg c"
  by (cases c)
     (simp_all add: set_width_def set_height_def Square_set_width_def Square_set_height_def)

lemma Square_sides:
  "priv_width (call_setters (Square_init c side) calls) = latest_side side calls \<and>
   priv_height (call_setters (Square_init c side) calls) = latest_side side calls"
proof (cases calls rule: rev_cases)
  case Nil
  then show ?thesis
    by (simp add: call_setters_def latest_side_def Square_init_def Rectangle_init_def)
next
  case (snoc cs x)
  have "cls (call_setters (Square_init c side) cs) = Square"
    by (simp add: cls_call_setters Square_init_def)
  from Square_call_setter [OF this, of x] snoc show ?thesis
    by (simp add: call_setters_def latest_side_def)
qed

text \<open>
  C8: a \<^verbatim>\<open>Square\<close> built with any side, after any sequence of \<^verbatim>\<open>set_width\<close> and
  \<^verbatim>\<open>set_height\<close> calls, has its width equal to its height, both equal to the argument of
  the latest setter call (the constructor's side when there was none); so
  \<^verbatim>\<open>calculate_area()\<close> is that side squared and \<^verbatim>\<open>calculate_perimeter()\<close> four times it.
\<close>

theorem Square_stays_square:
  "priv_width (call_setters (Square_init c side) calls) = latest_side side calls
   \<and> priv_height (call_setters (Square_init c side) calls) = latest_side side calls
   \<and> Rectangle_calculate_area (call_setters (Square_init c side) calls)
       = (latest_side side calls) ^ 2
   \<and> Rectangle_calculate_perimeter (call_setters (Square_init c side) calls)
       = 4 * latest_side side calls"
  using Square_sides [of c side calls]
  by (simp add: Rectangle_calculate_area_def Rectangle_calculate_perimeter_def power2_eq_square)

text \<open>
  The driver's \<^verbatim>\<open>resize_rectangle(square, 7, 7)\<close> on \<^verbatim>\<open>Square("Morado", 5)\<close>, and a square
  whose width alone is set to 3.
\<close>

theorem Square_stays_square_witness:
  "Rectangle_calculate_area
     (call_setters (Square_init (py ''Morado'') 5) [Call_set_width 7, Call_set_height 7]) = 49
   \<and> Rectangle_calculate_perimeter
     (call_setters (Square_init (py ''Morado'') 5) [Call_set_width 7, Call_set_height 7]) = 28
   \<and> priv_height (call_setters (Square_init (py ''Azul'') 4) [Call_set_width 3]) = 3
   \<and> Rectangle_calculate_area (call_setters (Square_init (py ''Azul'') 4) []) = 16"
  using Square_stays_square [of "py ''Morado''" 5 "[Call_set_width 7, Call_set_height 7]"]
    Square_stays_square [of "py ''Azul''" 4 "[Call_set_width 3]"]
    Square_stays_square [of "py ''Azul''" 4 "[]"]
  by (simp add: latest_side_def)

text \<open>
  C7: a \<^verbatim>\<open>BadPenguin\<close> can be created (it overrides the abstract \<^verbatim>\<open>fly\<close>), and on every
  such object, whatever its attributes, \<^verbatim>\<open>fly()\<close> raises \<^verbatim>\<open>NotImplementedError\<close>; the
  same holds for \<^verbatim>\<open>BadBicycle\<close> and \<^verbatim>\<open>start_engine()\<close>, which overrides the working
  method of \<^verbatim>\<open>BadVehicle\<close>. A call does not change the object, so every call raises.
\<close>

theorem stubbed_methods_raise:
  "instantiate BadPenguin as = Inr \<lparr>class_of = BadPenguin, attrs = as\<rparr>
   \<and> call_method \<lparr>class_of = BadPenguin, attrs = as\<rparr> ''fly'' = Inl NotImplementedError
   \<and> instantiate BadBicycle as' = Inr \<lparr>class_of = BadBicycle, attrs = as'\<rparr>
   \<and> call_method \<lparr>class_of = BadBicycle, attrs = as'\<rparr> ''start_engine''
       = Inl NotImplementedError"
  by (simp add: instantiate_def call_method_def BadPenguin_def BadBird_def BadBicycle_def
      BadVehicle_def attr_is_abstract_def)

lemma abstractmethods_ABCMeta: "abstractmethods c \<noteq> [] \<Longrightarrow> is_ABCMeta c"
  by (cases c) (simp_all split: if_splits)

lemma abstractmethods_abstract:
  "n \<in> set (abstractmethods c) \<Longrightarrow> attr_is_abstract c n"
  by (cases c) (auto split: if_splits)

lemma omitted_stays_abstract:
  assumes "n \<in> set (abstractmethods base)" and "n \<notin> fst ` set ms"
  shows "n \<in> set (abstractmethods (PyClass name base ms))"
proof -
  have "abstractmethods base \<noteq> []" using assms(1) by auto
  then have abc: "is_ABCMeta base" by (rule abstractmethods_ABCMeta)
  have "map_of ms n = None" using assms(2) by (simp add: map_of_eq_None_iff)
  then have "attr_is_abstract (PyClass name base ms) n = attr_is_abstract base n"
    by (simp add: attr_is_abstract_def)
  then have "attr_is_abstract (PyClass name base ms) n"
    using abstractmethods_abstract [OF assms(1)] by simp
  then show ?thesis using abc assms(1) by simp
qed

text \<open>
  C1, as the code has it: a class that leaves an abstract method of its base undefined
  cannot be instantiated, the call of the class raises \<^verbatim>\<open>TypeError\<close>. The code has no
  registry and no \<^verbatim>\<open>IncompleteImplementationError\<close>. \<^verbatim>\<open>BadSimplePrinter\<close> defines all
  eight methods of \<^verbatim>\<open>BadMultiFunctionDevice\<close>, so creating one succeeds;
  \<^verbatim>\<open>print_document\<close> works and each of the seven stubs raises \<^verbatim>\<open>NotImplementedError\<close>
  when it is called.
\<close>

theorem omitted_abstract_method_TypeError:
  "(n \<in> set (abstractmethods base) \<and> n \<notin> fst ` set ms \<longrightarrow>
      instantiate (PyClass name base ms) as = Inl TypeError)
   \<and> instantiate BadSimplePrinter [] = Inr \<lparr>class_of = BadSimplePrinter, attrs = []\<rparr>
   \<and> call_method \<lparr>class_of = BadSimplePrinter, attrs = []\<rparr> ''print_document'' = Inr PNone
   \<and> list_all (\<lambda>m. call_method \<lparr>class_of = BadSimplePrinter, attrs = []\<rparr> m
                       = Inl NotImplementedError)
        [''print_color'', ''scan_document'', ''scan_to_email'', ''send_fax'',
         ''receive_fax'', ''copy_document'', ''copy_color'']"
proof -
  have "n \<in> set (abstractmethods base) \<and> n \<notin> fst ` set ms \<longrightarrow>
      instantiate (PyClass name base ms) as = Inl TypeError"
  proof
    assume "n \<in> set (abstractmethods base) \<and> n \<notin> fst ` set ms"
    then have "n \<in> set (abstractmethods (PyClass name base ms))"
      using omitted_stays_abstract [of n base ms name] by blast
    then have "abstractmethods (PyClass name base ms) \<noteq> []"
      by (metis empty_iff empty_set)
    then show "instantiate (PyClass name base ms) as = Inl TypeError"
      by (simp add: instantiate_def del: abstractmethods.simps)
  qed
  moreover have "instantiate BadSimplePrinter [] = Inr \<lparr>class_of = BadSimplePrinter, attrs = []\<rparr>"
    by (simp add: instantiate_def BadSimplePrinter_def BadMultiFunctionDevice_def
        attr_is_abstract_def)
  moreover have "call_method \<lparr>class_of = BadSimplePrinter, attrs = []\<rparr> ''print_document'' = Inr PNone"
    by (simp add: call_method_def BadSimplePrinter_def)
  moreover have "list_all (\<lambda>m. call_method \<lparr>class_of = BadSimplePrinter, attrs = []\<rparr> m
                       = Inl NotImplementedError)
        [''print_color'', ''scan_document'', ''scan_to_email'', ''send_fax'',
         ''receive_fax'', ''copy_document'', ''copy_color'']"
    by (simp add: call_method_def BadSimplePrinter_def)
  ultimately show ?thesis by blast
qed

text \<open>
  A printer class that defines \<^verbatim>\<open>print_document\<close> only: \<^verbatim>\<open>print_color\<close> is still
  abstract, and the class cannot be instantiated.
\<close>

theorem omitted_abstract_method_TypeError_witness:
  "''print_color'' \<in> set (abstractmethods BadMultiFunctionDevice)
   \<and> ''print_color'' \<notin> fst ` set [(''print_document'', Method False Print)]
   \<and> instantiate (PyClass ''PartialPrinter'' BadMultiFunctionDevice
        [(''print_document'', Method False Print)]) [] = Inl TypeError"
  using omitted_abstract_method_TypeError [of "''print_color''" BadMultiFunctionDevice
      "[(''print_document'', Method False Print)]" "''PartialPrinter''" "[]"]
  by (simp add: BadMultiFunctionDevice_def attr_is_abstract_def)

text \<open>
  C1 as stated fails on its own example: creating a \<^verbatim>\<open>BadSimplePrinter\<close> succeeds, and
  the failure comes at the first call of a stub, as a \<^verbatim>\<open>NotImplementedError\<close>.
\<close>

theorem BadSimplePrinter_instantiates_counterexample:
  "instantiate BadSimplePrinter [] = Inr \<lparr>class_of = BadSimplePrinter, attrs = []\<rparr>
   \<and> call_method \<lparr>class_of = BadSimplePrinter, attrs = []\<rparr> ''print_color''
       = Inl NotImplementedError"
  by (simp add: instantiate_def call_method_def BadSimplePrinter_def
      BadMultiFunctionDevice_def attr_is_abstract_def)

subsection \<open>dip\_example.py\<close>


lemma save_objects [simp]:
  "objects (snd (save fmt h self data)) = objects h"
  "next_addr (snd (save fmt h self data)) = next_addr h"
  by (cases self; simp add: DatabaseRepository_save_def FileRepository_save_def
      CloudRepository_save_def dict_setitem_def Let_def split: sum.splits)+

lemma delete_objects [simp]:
  "objects (snd (delete fmt h self ident)) = objects h"
  "next_addr (snd (delete fmt h self ident)) = next_addr h"
  by (cases self; simp add: DatabaseRepository_delete_def FileRepository_delete_def
      CloudRepository_delete_def dict_delitem_def Let_def split: sum.splits)+

lemma own_dicts_new_object:
  assumes "own_dicts h" and "\<And>d. store_of (mk d) = d"
  shows "own_dicts (snd (new_object h mk))"
proof -
  have old: "store_of A < next_addr h" if "objects h a = Some A" for a A
    using assms(1) that unfolding own_dicts_def by blast
  have inj: "store_of A \<noteq> store_of B"
    if "objects h a = Some A" "objects h b = Some B" "a \<noteq> b" for a b A B
    using assms(1) that unfolding own_dicts_def by blast
  have bound: "\<forall>a A. objects (snd (new_object h mk)) a = Some A \<longrightarrow>
                 store_of A < next_addr (snd (new_object h mk))"
    using old assms(2) by (auto simp: new_object_def Let_def less_Suc_eq split: if_splits)
  have apart: "\<forall>a b A B. objects (snd (new_object h mk)) a = Some A \<and>
                 objects (snd (new_object h mk)) b = Some B \<and> a \<noteq> b
                 \<longrightarrow> store_of A \<noteq> store_of B"
  proof (intro allI impI, elim conjE)
    fix a b A B
    assume a: "objects (snd (new_object h mk)) a = Some A"
      and b: "objects (snd (new_object h mk)) b = Some B" and ne: "a \<noteq> b"
    show "store_of A \<noteq> store_of B"
    proof (cases "a = next_addr h")
      case True
      then have A: "store_of A = Suc (next_addr h)"
        using a assms(2) by (auto simp: new_object_def Let_def)
      have "objects h b = Some B" using b ne True by (auto simp: new_object_def Let_def)
      from old [OF this] A show ?thesis by simp
    next
      case False
      then have oa: "objects h a = Some A" using a by (auto simp: new_object_def Let_def)
      show ?thesis
      proof (cases "b = next_addr h")
        case True
        then have B: "store_of B = Suc (next_addr h)"
          using b assms(2) by (auto simp: new_object_def Let_def)
        from old [OF oa] B show ?thesis by simp
      next
        case False
        then have "objects h b = Some B" using b by (auto simp: new_object_def Let_def)
        from inj [OF oa this ne] show ?thesis .
      qed
    qed
  qed
  from bound apart show ?thesis unfolding own_dicts_def by blast
qed

lemma reachable_own_dicts: "reachable fmt h \<Longrightarrow> own_dicts h"
proof (induction rule: reachable.induct)
  case reachable_empty
  show ?case by (simp add: own_dicts_def empty_heap_def)
next
  case (reachable_Database h cs)
  then show ?case by (simp add: DatabaseRepository_init_def own_dicts_new_object)
next
  case (reachable_File h bp)
  then show ?case by (simp add: FileRepository_init_def own_dicts_new_object)
next
  case (reachable_Cloud h cp)
  then show ?case by (simp add: CloudRepository_init_def own_dicts_new_object)
next
  case (reachable_save h a self data)
  then show ?case by (simp add: own_dicts_def)
next
  case (reachable_delete h a self ident)
  then show ?case by (simp add: own_dicts_def)
qed

lemma save_dicts_other:
  "d \<noteq> store_of A \<Longrightarrow> dicts (snd (save fmt h A data)) d = dicts h d"
  by (cases A; simp add: DatabaseRepository_save_def FileRepository_save_def
      CloudRepository_save_def dict_setitem_def Let_def split: sum.splits)

lemma load_depends_on_own_dict:
  "dicts h' (store_of B) = dicts h (store_of B) \<Longrightarrow> load fmt h' B ident = load fmt h B ident"
  by (cases B; simp add: DatabaseRepository_load_def FileRepository_load_def
      CloudRepository_load_def Let_def cong: sum.case_cong option.case_cong)

text \<open>
  C5: in every reachable heap, for two distinct repository objects \<open>A\<close> and \<open>B\<close> of any
  classes, \<^verbatim>\<open>A.save(d)\<close> leaves every \<^verbatim>\<open>B.load(i)\<close> as it was (the same dict, default or
  exception), whether the \<^verbatim>\<open>save\<close> returns or raises: each object has a dict of its own.
\<close>

theorem save_leaves_other_repositories:
  assumes "reachable fmt h"
    and "objects h a = Some A" and "objects h b = Some B" and "a \<noteq> b"
  shows "load fmt (snd (save fmt h A data)) B ident = load fmt h B ident"
proof -
  have "own_dicts h" using assms(1) by (rule reachable_own_dicts)
  then have "store_of B \<noteq> store_of A"
    using assms(2-4) unfolding own_dicts_def by metis
  then show ?thesis
    by (intro load_depends_on_own_dict save_dicts_other)
qed

lemma driver_heap_objects:
  "objects driver_heap 0 =
     Some (Database \<lparr>connection_string = py ''jdbc:mysql://localhost:3306/mydb'',
                       data_store = 1\<rparr>)"
  "objects driver_heap 2 = Some (File \<lparr>base_path = py ''/data/files'', files = 3\<rparr>)"
  "objects driver_heap 4 = Some (Cloud \<lparr>cloud_provider = py ''AWS S3'', cloud_storage = 5\<rparr>)"
  by (simp_all add: driver_heap_def DatabaseRepository_init_def FileRepository_init_def
      CloudRepository_init_def new_object_def empty_heap_def Let_def)

lemma driver_heap_dicts: "dicts driver_heap a = Map.empty"
  by (simp add: driver_heap_def DatabaseRepository_init_def FileRepository_init_def
      CloudRepository_init_def new_object_def empty_heap_def Let_def)

lemma driver_heap_reachable: "reachable fmt driver_heap"
  unfolding driver_heap_def
  by (intro reachable_Cloud reachable_File reachable_Database reachable_empty)

text \<open>
  In the driver's heap, saving the test record in the database repository leaves the cloud
  repository answering with its default.
\<close>

theorem save_leaves_other_repositories_witness:
  "\<forall>fmt. reachable fmt driver_heap
     \<and> objects driver_heap 0 =
         Some (Database \<lparr>connection_string = py ''jdbc:mysql://localhost:3306/mydb'',
                           data_store = 1\<rparr>)
     \<and> objects driver_heap 4 =
         Some (Cloud \<lparr>cloud_provider = py ''AWS S3'', cloud_storage = 5\<rparr>)
     \<and> (0::nat) \<noteq> 4
     \<and> load fmt
          (snd (save fmt driver_heap
             (Database \<lparr>connection_string = py ''jdbc:mysql://localhost:3306/mydb'',
                          data_store = 1\<rparr>) test_data))
          (Cloud \<lparr>cloud_provider = py ''AWS S3'', cloud_storage = 5\<rparr>)
          (PStr (py ''product_001''))
       = Inr [(PStr (py ''id''), PStr (py ''product_001'')),
              (PStr (py ''data''), PStr (py ''Data from cloud''))]"
proof
  fix fmt
  have r: "reachable fmt driver_heap" by (rule driver_heap_reachable)
  have ne: "(0::nat) \<noteq> 4" by simp
  from save_leaves_other_repositories [OF r driver_heap_objects(1) driver_heap_objects(3) ne,
      of test_data "PStr (py ''product_001'')"]
  show "reachable fmt driver_heap
     \<and> objects driver_heap 0 =
         Some (Database \<lparr>connection_string = py ''jdbc:mysql://localhost:3306/mydb'',
                           data_store = 1\<rparr>)
     \<and> objects driver_heap 4 =
         Some (Cloud \<lparr>cloud_provider = py ''AWS S3'', cloud_storage = 5\<rparr>)
     \<and> (0::nat) \<noteq> 4
     \<and> load fmt
          (snd (save fmt driver_heap
             (Database \<lparr>connection_string = py ''jdbc:mysql://localhost:3306/mydb'',
                          data_store = 1\<rparr>) test_data))
          (Cloud \<lparr>cloud_provider = py ''AWS S3'', cloud_storage = 5\<rparr>)
          (PStr (py ''product_001''))
       = Inr [(PStr (py ''id''), PStr (py ''product_001'')),
              (PStr (py ''data''), PStr (py ''Data from cloud''))]"
    using r driver_heap_objects
    by (simp add: CloudRepository_load_def driver_heap_dicts)
qed





end
